theory Spec2Isabelle
  imports Main
begin

section \<open>Values, functions and the store\<close>

text \<open>
  The module \<^verbatim>\<open>js/source/source.js\<close> keeps one private object, \<^verbatim>\<open>sourceTypes\<close>, and
  exports \<^verbatim>\<open>create\<close>, \<^verbatim>\<open>getType\<close> and \<^verbatim>\<open>setType\<close>. JavaScript values are modelled by
  \<open>val\<close>; numbers are restricted to integers. Function values are \<open>fn\<close>: a function
  written by a user of the module (\<open>Code\<close>), a function of the host or of a sibling
  module, known by its qualified name (\<open>Native\<close>), and the result of
  \<^verbatim>\<open>Function.prototype.bind\<close> (\<open>Bound target receiver\<close>).
\<close>

type_synonym addr = int

datatype val =
    Undefined
  | Null
  | Bool bool
  | Num int
  | Str string
  | Ref addr
  | Fn fn
  | ObjectPrototype
  | SourceTypes
and fn =
    Code nat
  | Native string
  | Bound fn val

datatype error =
    NotAFunction val
  | NoProperties val string
  | ReadOnly string
  | Restricted string
  | Error string
  | Thrown val

datatype outcome = Return val | Throw error

text \<open>
  The state holds the own properties of \<^verbatim>\<open>sourceTypes\<close>, its prototype link
  (\<open>None\<close> is the link an object literal starts with, to \<^verbatim>\<open>Object.prototype\<close>), and the
  heap of ordinary objects, each a map from property names to values. The entries of
  the registry are factories, hence functions.
\<close>

record state =
  sourceTypes :: "string \<rightharpoonup> fn"
  sourceTypes_proto :: "fn option"
  heap :: "addr \<Rightarrow> string \<rightharpoonup> val"

text \<open>
  What the module does not contain is a parameter.
  \<^item> \<open>run\<close> executes the body of a function that is not a bound function, with a
    receiver and arguments.
  \<^item> \<open>proto_get g n\<close> is the lookup of the name \<open>n\<close> through a function \<open>g\<close> that has
    become the prototype of \<^verbatim>\<open>sourceTypes\<close>: it starts at the own properties of \<open>g\<close>,
    may run a getter, and may throw.
  \<^item> \<open>proto_set g n v\<close> is what the same chain does to the assignment of \<open>v\<close> under \<open>n\<close>:
    \<open>None\<close> when it lets the assignment create an own property of \<^verbatim>\<open>sourceTypes\<close>,
    otherwise the outcome of the setter it ran or of the refusal of a read-only
    property.
  \<^item> \<open>show_num\<close> is the string of an integer beyond \<open>2\<^sup>5\<^sup>3\<close> in magnitude.
  \<^item> \<open>show_obj\<close> converts an object or a function to a string, as \<^verbatim>\<open>+\<close> on strings does
    (\<open>HintDefault\<close>) or as a computed property name does (\<open>HintString\<close>): it runs the
    \<^verbatim>\<open>valueOf\<close> and \<^verbatim>\<open>toString\<close> of the object, so it may change the state and may throw.
\<close>

datatype hint = HintDefault | HintString

record env =
  run :: "fn \<Rightarrow> val \<Rightarrow> val list \<Rightarrow> state \<Rightarrow> outcome \<times> state"
  proto_get :: "fn \<Rightarrow> string \<Rightarrow> state \<Rightarrow> outcome \<times> state"
  proto_set :: "fn \<Rightarrow> string \<Rightarrow> fn \<Rightarrow> state \<Rightarrow> (outcome \<times> state) option"
  show_num :: "int \<Rightarrow> string"
  show_obj :: "hint \<Rightarrow> val \<Rightarrow> state \<Rightarrow> (error + string) \<times> state"

section \<open>Property lookup on a plain object\<close>

text \<open>
  A property found on a prototype is a data property with its value and its writable
  flag, or the accessor \<^verbatim>\<open>__proto__\<close> of \<^verbatim>\<open>Object.prototype\<close>. The table of
  \<^verbatim>\<open>Object.prototype\<close> is that of ECMAScript 2015 with its annex B.
\<close>

datatype slot = Data val bool | ProtoAccessor

definition object_prototype_methods :: "string list" where
  "object_prototype_methods =
     [''hasOwnProperty'', ''isPrototypeOf'', ''propertyIsEnumerable'', ''toLocaleString'',
      ''toString'', ''valueOf'', ''__defineGetter__'', ''__defineSetter__'',
      ''__lookupGetter__'', ''__lookupSetter__'']"

definition object_prototype :: "string \<Rightarrow> slot option" where
  "object_prototype n =
     (if n = ''__proto__'' then Some ProtoAccessor
      else if n = ''constructor'' then Some (Data (Fn (Native ''Object'')) True)
      else if n \<in> set object_prototype_methods
        then Some (Data (Fn (Native (''Object.prototype.'' @ n))) True)
      else None)"

definition slot_value :: "val \<Rightarrow> slot option \<Rightarrow> val" where
  "slot_value p s = (case s of None \<Rightarrow> Undefined | Some (Data v w) \<Rightarrow> v | Some ProtoAccessor \<Rightarrow> p)"

section \<open>The registry: getType and setType\<close>

text \<open>
  \<^verbatim>\<open>exports.getType = function (name) { return sourceTypes[name]; }\<close>: the own property
  if there is one; otherwise what the prototype chain gives. While the prototype is
  \<^verbatim>\<open>Object.prototype\<close> that is the entry of its table or \<^verbatim>\<open>undefined\<close>. Once a function \<open>g\<close>
  has become the prototype, the name \<^verbatim>\<open>__proto__\<close> still reaches the accessor of
  \<^verbatim>\<open>Object.prototype\<close>, which gives \<open>g\<close>, and every other name is looked up by the host
  through \<open>g\<close>.
\<close>

definition getType :: "env \<Rightarrow> state \<Rightarrow> string \<Rightarrow> outcome \<times> state" where
  "getType E st name =
     (case sourceTypes st name of
        Some f \<Rightarrow> (Return (Fn f), st)
      | None \<Rightarrow>
          (case sourceTypes_proto st of
             None \<Rightarrow> (Return (slot_value ObjectPrototype (object_prototype name)), st)
           | Some g \<Rightarrow>
               (if name = ''__proto__'' then (Return (Fn g), st)
                else proto_get E g name st)))"

text \<open>
  \<^verbatim>\<open>exports.setType = function (name, type) { sourceTypes[name] = type; }\<close>, in a file
  under \<^verbatim>\<open>'use strict'\<close>: an own property is overwritten; otherwise the inherited accessor
  \<^verbatim>\<open>__proto__\<close> replaces the prototype link, an inherited read-only property makes the
  assignment throw, an inherited setter is run, and in every other case a new own
  property is created. The second argument is a factory, hence a function.
\<close>

definition write_own :: "string \<Rightarrow> fn \<Rightarrow> state \<Rightarrow> outcome \<times> state" where
  "write_own name type st =
     (Return Undefined, st\<lparr>sourceTypes := (sourceTypes st)(name \<mapsto> type)\<rparr>)"

definition setType :: "env \<Rightarrow> string \<Rightarrow> fn \<Rightarrow> state \<Rightarrow> outcome \<times> state" where
  "setType E name type st =
     (case sourceTypes st name of
        Some g \<Rightarrow> write_own name type st
      | None \<Rightarrow>
          (case sourceTypes_proto st of
             None \<Rightarrow>
               (case object_prototype name of
                  None \<Rightarrow> write_own name type st
                | Some (Data v w) \<Rightarrow>
                    (if w then write_own name type st else (Throw (ReadOnly name), st))
                | Some ProtoAccessor \<Rightarrow>
                    (Return Undefined, st\<lparr>sourceTypes_proto := Some type\<rparr>))
           | Some g \<Rightarrow>
               (if name = ''__proto__''
                then (Return Undefined, st\<lparr>sourceTypes_proto := Some type\<rparr>)
                else (case proto_set E g name type st of
                        None \<Rightarrow> write_own name type st
                      | Some r \<Rightarrow> r))))"

text \<open>The object literal of lines 5 to 11, with an empty heap.\<close>

definition builtin_types :: "(string \<times> fn) list" where
  "builtin_types =
     [(''vector'', Native ''../source/vector_tile_source.create''),
      (''raster'', Native ''../source/raster_tile_source.create''),
      (''geojson'', Native ''../source/geojson_source.create''),
      (''video'', Native ''../source/video_source.create''),
      (''image'', Native ''../source/image_source.create'')]"

definition initial :: state where
  "initial = \<lparr>sourceTypes = map_of builtin_types, sourceTypes_proto = None,
              heap = (\<lambda>a. Map.empty)\<rparr>"

section \<open>Reading properties, converting to strings, calling\<close>

text \<open>
  \<^verbatim>\<open>v[n]\<close> for a value \<open>v\<close> that \<^verbatim>\<open>create\<close> reads from: the options, or what the factory
  returned. Reading a property of \<^verbatim>\<open>undefined\<close> or \<^verbatim>\<open>null\<close> throws a \<^verbatim>\<open>TypeError\<close>. A heap
  object shows its own properties and then those of \<^verbatim>\<open>Object.prototype\<close>; the registry
  object shows its entries and, while its prototype is \<^verbatim>\<open>Object.prototype\<close>, that table.
  Booleans, numbers, strings and function objects (also a function that has become
  the prototype of the registry) are not modelled further: they are taken to hold
  none of the names \<^verbatim>\<open>create\<close> reads, which are \<^verbatim>\<open>type\<close>, \<^verbatim>\<open>id\<close> and the five lifecycle
  names.
\<close>

definition get_prop :: "env \<Rightarrow> state \<Rightarrow> val \<Rightarrow> string \<Rightarrow> error + val" where
  "get_prop E st v n =
     (case v of
        Undefined \<Rightarrow> Inl (NoProperties v n)
      | Null \<Rightarrow> Inl (NoProperties v n)
      | Bool b \<Rightarrow> Inr Undefined
      | Num i \<Rightarrow> Inr Undefined
      | Str s \<Rightarrow> Inr Undefined
      | Ref a \<Rightarrow>
          (case heap st a n of
             Some x \<Rightarrow> Inr x
           | None \<Rightarrow> Inr (slot_value ObjectPrototype (object_prototype n)))
      | Fn f \<Rightarrow> Inr Undefined
      | ObjectPrototype \<Rightarrow> Inr (slot_value Null (object_prototype n))
      | SourceTypes \<Rightarrow>
          (case sourceTypes st n of
             Some f \<Rightarrow> Inr (Fn f)
           | None \<Rightarrow>
               (case sourceTypes_proto st of
                  None \<Rightarrow> Inr (slot_value ObjectPrototype (object_prototype n))
                | Some g \<Rightarrow> Inr (if n = ''__proto__'' then Fn g else Undefined))))"

definition digit :: "nat \<Rightarrow> char" where
  "digit n = ''0123456789'' ! n"

fun show_nat :: "nat \<Rightarrow> string" where
  "show_nat n = (if n < 10 then [digit n] else show_nat (n div 10) @ [digit (n mod 10)])"

definition show_int :: "int \<Rightarrow> string" where
  "show_int i = (if i < 0 then ''-'' @ show_nat (nat (- i)) else show_nat (nat i))"

text \<open>
  The conversion to a string that \<^verbatim>\<open>+\<close> on strings and a computed property name apply.
  An integer of magnitude up to \<open>2\<^sup>5\<^sup>3\<close> prints in decimal; beyond that JavaScript
  prints the shortest digits that denote the same number, in exponent form from
  \<open>10\<^sup>2\<^sup>1\<close> on, and the string is left to the host. Objects and functions are converted
  by their own methods.
\<close>

definition to_string :: "env \<Rightarrow> hint \<Rightarrow> val \<Rightarrow> state \<Rightarrow> (error + string) \<times> state" where
  "to_string E h v st =
     (case v of
        Undefined \<Rightarrow> (Inr ''undefined'', st)
      | Null \<Rightarrow> (Inr ''null'', st)
      | Bool b \<Rightarrow> (Inr (if b then ''true'' else ''false''), st)
      | Num i \<Rightarrow> (Inr (if \<bar>i\<bar> \<le> 9007199254740992 then show_int i else show_num E i), st)
      | Str s \<Rightarrow> (Inr s, st)
      | _ \<Rightarrow> show_obj E h v st)"

text \<open>
  Calling a function with a receiver: a bound function ignores the receiver of the call
  and runs its target with the receiver it was bound to.
\<close>

fun call :: "env \<Rightarrow> fn \<Rightarrow> val \<Rightarrow> val list \<Rightarrow> state \<Rightarrow> outcome \<times> state" where
  "call E (Bound g t) this args st = call E g t args st"
| "call E (Code k) this args st = run E (Code k) this args st"
| "call E (Native q) this args st = run E (Native q) this args st"

text \<open>Calling any value: one that is not a function throws a \<^verbatim>\<open>TypeError\<close>.\<close>

definition invoke :: "env \<Rightarrow> val \<Rightarrow> val \<Rightarrow> val list \<Rightarrow> state \<Rightarrow> outcome \<times> state" where
  "invoke E v this args st =
     (case v of Fn f \<Rightarrow> call E f this args st | _ \<Rightarrow> (Throw (NotAFunction v), st))"

section \<open>Binding methods\<close>

text \<open>
  Modelled from the spec: \<^verbatim>\<open>util.bindAll\<close> of \<^verbatim>\<open>js/util/util.js\<close>, which is not among the
  sources. The spec has \<^verbatim>\<open>create\<close> \<^emph>\<open>bind the instance's lifecycle methods to the instance
  itself so they may be passed around and invoked without losing their receiver
  context\<close>: each listed name that holds a function on the object is replaced, on the
  object, by that function bound to the object; a name that holds no function is left
  as it is.
\<close>

definition bind_one :: "env \<Rightarrow> string \<Rightarrow> val \<Rightarrow> state \<Rightarrow> state" where
  "bind_one E name context st =
     (case context of
        Ref a \<Rightarrow>
          (case get_prop E st context name of
             Inr (Fn f) \<Rightarrow>
               st\<lparr>heap := (heap st)(a := (heap st a)(name \<mapsto> Fn (Bound f context)))\<rparr>
           | _ \<Rightarrow> st)
      | _ \<Rightarrow> st)"

fun bindAll :: "env \<Rightarrow> string list \<Rightarrow> val \<Rightarrow> state \<Rightarrow> state" where
  "bindAll E [] context st = st"
| "bindAll E (name # fns) context st = bindAll E fns context (bind_one E name context st)"

section \<open>Creating a source\<close>

definition lifecycle :: "string list" where
  "lifecycle = [''load'', ''abort'', ''unload'', ''serialize'', ''prepare'']"

definition mismatch_message :: "string \<Rightarrow> string \<Rightarrow> string" where
  "mismatch_message ident returned =
     ''Expected Source id to be '' @ ident @ '' instead of '' @ returned"

text \<open>
  Line 31, \<^verbatim>\<open>source = sourceTypes[source.type](id, source, dispatcher)\<close>: the type is
  read from the options and converted to a property name, the registry is indexed with
  it as \<^verbatim>\<open>getType\<close> does, and what is found is called as a method of \<^verbatim>\<open>sourceTypes\<close>, so
  that object is the receiver of the factory. The parameter \<^verbatim>\<open>id\<close> is \<open>ident\<close> here.
\<close>

definition factory_call :: "env \<Rightarrow> string \<Rightarrow> val \<Rightarrow> val \<Rightarrow> state \<Rightarrow> outcome \<times> state" where
  "factory_call E ident source dispatcher st =
     (case get_prop E st source ''type'' of
        Inl e \<Rightarrow> (Throw e, st)
      | Inr ty \<Rightarrow>
          (case to_string E HintString ty st of
             (Inl e, sk) \<Rightarrow> (Throw e, sk)
           | (Inr t, sk) \<Rightarrow>
               (case getType E sk t of
                  (Throw e, st0) \<Rightarrow> (Throw e, st0)
                | (Return f, st0) \<Rightarrow>
                    invoke E f SourceTypes [Str ident, source, dispatcher] st0)))"

text \<open>
  \<^verbatim>\<open>exports.create\<close>, lines 30 to 39. Every throw is a \<open>Throw\<close> outcome together with
  the state reached when it happened. Building the message of line 34 converts the
  returned id to a string, which for an object runs its own methods.
\<close>

definition create :: "env \<Rightarrow> string \<Rightarrow> val \<Rightarrow> val \<Rightarrow> state \<Rightarrow> outcome \<times> state" where
  "create E ident source dispatcher st =
     (case factory_call E ident source dispatcher st of
        (Throw e, st1) \<Rightarrow> (Throw e, st1)
      | (Return src, st1) \<Rightarrow>
          (case get_prop E st1 src ''id'' of
             Inl e \<Rightarrow> (Throw e, st1)
           | Inr sid \<Rightarrow>
               (if sid \<noteq> Str ident then
                  (case to_string E HintDefault sid st1 of
                     (Inl e, st2) \<Rightarrow> (Throw e, st2)
                   | (Inr returned, st2) \<Rightarrow>
                       (Throw (Error (mismatch_message ident returned)), st2))
                else (Return src, bindAll E lifecycle src st1))))"

text \<open>A method call \<^verbatim>\<open>v[name](args)\<close>: the receiver is \<open>v\<close>.\<close>

definition method_call :: "env \<Rightarrow> val \<Rightarrow> string \<Rightarrow> val list \<Rightarrow> state \<Rightarrow> outcome \<times> state" where
  "method_call E v name args st =
     (case get_prop E st v name of
        Inl e \<Rightarrow> (Throw e, st)
      | Inr m \<Rightarrow> invoke E m v args st)"

section \<open>Deep equality and the contract of serialize\<close>



section \<open>A third-party source type\<close>

text \<open>
  A concrete environment on which the theorems below are exercised. Its functions are
  plain functions in strict code with nothing added to them. Looked up through such a
  function, \<^verbatim>\<open>caller\<close> and \<^verbatim>\<open>arguments\<close> throw, \<^verbatim>\<open>length\<close> and \<^verbatim>\<open>name\<close> are its own read-only
  properties, \<^verbatim>\<open>prototype\<close> is its own writable property, and the rest comes from
  \<^verbatim>\<open>Function.prototype\<close> and then \<^verbatim>\<open>Object.prototype\<close>.
\<close>

definition function_prototype_methods :: "string list" where
  "function_prototype_methods = [''apply'', ''bind'', ''call'', ''toString'']"

definition plain_length :: "fn \<Rightarrow> int" where
  "plain_length g =
     (case g of Code k \<Rightarrow> (if k \<in> {0, 2, 3, 7, 8, 9, 10} then 3 else 0) | _ \<Rightarrow> 0)"

definition plain_prototype :: "fn \<Rightarrow> val" where
  "plain_prototype g = (case g of Code k \<Rightarrow> Ref (- 1 - int k) | _ \<Rightarrow> Undefined)"

definition plain_value :: "fn \<Rightarrow> string \<Rightarrow> val" where
  "plain_value g n =
     (if n = ''length'' then Num (plain_length g)
      else if n = ''name'' then Str []
      else if n = ''prototype'' then plain_prototype g
      else if n = ''constructor'' then Fn (Native ''Function'')
      else if n \<in> set function_prototype_methods then Fn (Native (''Function.prototype.'' @ n))
      else slot_value (Fn g) (object_prototype n))"

definition plain_get :: "fn \<Rightarrow> string \<Rightarrow> state \<Rightarrow> outcome \<times> state" where
  "plain_get g n st =
     (if n \<in> set [''caller'', ''arguments''] then (Throw (Restricted n), st)
      else (Return (plain_value g n), st))"

definition plain_set :: "fn \<Rightarrow> string \<Rightarrow> fn \<Rightarrow> state \<Rightarrow> (outcome \<times> state) option" where
  "plain_set g n v st =
     (if n \<in> set [''length'', ''name''] then Some (Throw (ReadOnly n), st)
      else if n \<in> set [''caller'', ''arguments''] then Some (Throw (Restricted n), st)
      else None)"

text \<open>
  The functions. Each allocates its result at an address derived from its argument or
  receiver.
  \<^item> \<open>Code 0\<close> is a factory
    \<^verbatim>\<open>function (id, options) { return {id: id, options: options, load: ..., serialize: ...}; }\<close>
    whose \<^verbatim>\<open>load\<close> (\<open>Code 5\<close>) returns its receiver and whose \<^verbatim>\<open>serialize\<close> (\<open>Code 6\<close>)
    returns a copy of \<^verbatim>\<open>this.options\<close>.
  \<^item> \<open>Code 2\<close> is a factory that returns \<^verbatim>\<open>{id: 'other'}\<close>, \<open>Code 7\<close> one that returns
    \<^verbatim>\<open>{id: 42}\<close>, \<open>Code 9\<close> one that returns \<^verbatim>\<open>{id: 1e21}\<close> and \<open>Code 10\<close> one that returns
    \<^verbatim>\<open>{id: x}\<close> for the object \<open>x\<close> at address 7, whatever they are asked for.
  \<^item> \<open>Code 3\<close> is a factory \<^verbatim>\<open>function (id) { return {id: id, serialize: ...}; }\<close> whose
    \<^verbatim>\<open>serialize\<close> (\<open>Code 4\<close>) returns \<^verbatim>\<open>{}\<close>, leaving the type out.
  \<^item> \<open>Code 8\<close> is a factory
    \<^verbatim>\<open>function (id) { this.load = ...; return {id: id}; }\<close> that writes to its receiver.
  \<^item> The native \<^verbatim>\<open>Object.prototype.toString\<close> returns \<^verbatim>\<open>'[object Object]'\<close> for the
    receivers met here, and the only integer beyond \<open>2\<^sup>5\<^sup>3\<close> met here, \<open>10\<^sup>2\<^sup>1\<close>, prints
    as \<^verbatim>\<open>1e+21\<close>.
  \<^item> The object at address 7 has a \<^verbatim>\<open>toString\<close> that throws \<^verbatim>\<open>'boom'\<close>; every other object
    converts to \<^verbatim>\<open>'[object Object]'\<close>.
\<close>

definition arg :: "val list \<Rightarrow> nat \<Rightarrow> val" where
  "arg args k = (if k < length args then args ! k else Undefined)"

definition ref_addr :: "val \<Rightarrow> addr" where
  "ref_addr v = (case v of Ref a \<Rightarrow> a | _ \<Rightarrow> 0)"

definition custom_code :: "nat \<Rightarrow> val \<Rightarrow> val list \<Rightarrow> state \<Rightarrow> outcome \<times> state" where
  "custom_code k this args st =
     (if k = 0 then
        (Return (Ref (ref_addr (arg args 1) + 2)),
         st\<lparr>heap := (heap st)(ref_addr (arg args 1) + 2 :=
                 [''id'' \<mapsto> arg args 0, ''options'' \<mapsto> arg args 1,
                  ''load'' \<mapsto> Fn (Code 5), ''serialize'' \<mapsto> Fn (Code 6)])\<rparr>)
      else if k = 6 then
        (case heap st (ref_addr this) ''options'' of
           Some (Ref q) \<Rightarrow>
             (Return (Ref (ref_addr this + 1)),
              st\<lparr>heap := (heap st)(ref_addr this + 1 := heap st q)\<rparr>)
         | _ \<Rightarrow> (Return Undefined, st))
      else if k = 2 then
        (Return (Ref 4), st\<lparr>heap := (heap st)(4 := [''id'' \<mapsto> Str ''other''])\<rparr>)
      else if k = 7 then
        (Return (Ref 4), st\<lparr>heap := (heap st)(4 := [''id'' \<mapsto> Num 42])\<rparr>)
      else if k = 9 then
        (Return (Ref 4),
         st\<lparr>heap := (heap st)(4 := [''id'' \<mapsto> Num 1000000000000000000000])\<rparr>)
      else if k = 10 then
        (Return (Ref 4), st\<lparr>heap := (heap st)(4 := [''id'' \<mapsto> Ref 7])\<rparr>)
      else if k = 3 then
        (Return (Ref (ref_addr (arg args 1) + 2)),
         st\<lparr>heap := (heap st)(ref_addr (arg args 1) + 2 :=
                 [''id'' \<mapsto> arg args 0, ''serialize'' \<mapsto> Fn (Code 4)])\<rparr>)
      else if k = 4 then
        (Return (Ref (ref_addr this + 1)),
         st\<lparr>heap := (heap st)(ref_addr this + 1 := Map.empty)\<rparr>)
      else if k = 5 then (Return this, st)
      else if k = 8 then
        (Return (Ref 4),
         (if this = SourceTypes
          then st\<lparr>sourceTypes := (sourceTypes st)(''load'' \<mapsto> Code 5)\<rparr>
          else st)\<lparr>heap := (heap st)(4 := [''id'' \<mapsto> arg args 0])\<rparr>)
      else (Return Undefined, st))"

definition custom_run :: "fn \<Rightarrow> val \<Rightarrow> val list \<Rightarrow> state \<Rightarrow> outcome \<times> state" where
  "custom_run f this args st =
     (case f of
        Code k \<Rightarrow> custom_code k this args st
      | Native q \<Rightarrow>
          (if q = ''Object.prototype.toString'' then (Return (Str ''[object Object]''), st)
           else (Return Undefined, st))
      | Bound g t \<Rightarrow> (Return Undefined, st))"

definition custom_env :: env where
  "custom_env = \<lparr>run = custom_run, proto_get = plain_get, proto_set = plain_set,
                  show_num = (\<lambda>i. if i = 1000000000000000000000 then ''1e+21'' else show_int i),
                  show_obj = (\<lambda>h v st. if v = Ref 7 then (Inl (Thrown (Str ''boom'')), st)
                                        else (Inr ''[object Object]'', st))\<rparr>"

text \<open>
  The initial state with one options object \<^verbatim>\<open>{type: t}\<close> at address 0, and that state
  after \<^verbatim>\<open>setType(name, f)\<close>.
\<close>

definition with_options :: "string \<Rightarrow> state" where
  "with_options t = initial\<lparr>heap := (heap initial)(0 := [''type'' \<mapsto> Str t])\<rparr>"

definition registered :: "string \<Rightarrow> fn \<Rightarrow> string \<Rightarrow> state" where
  "registered name f t = snd (setType custom_env name f (with_options t))"

text \<open>
  The states of a run with the factory \<open>Code 0\<close> registered as \<^verbatim>\<open>custom\<close>: before
  \<^verbatim>\<open>create('a', {type: 'custom'}, null)\<close>, after the factory has returned, and after
  \<^verbatim>\<open>create\<close> has returned.
\<close>

definition custom_state :: state where
  "custom_state = registered ''custom'' (Code 0) ''custom''"

definition custom_made :: state where
  "custom_made = snd (factory_call custom_env ''a'' (Ref 0) Null custom_state)"

definition custom_created :: state where
  "custom_created = snd (create custom_env ''a'' (Ref 0) Null custom_state)"

text \<open>
  The same run with the factories \<open>Code 2\<close>, \<open>Code 7\<close>, \<open>Code 9\<close>, \<open>Code 10\<close>, \<open>Code 3\<close> and
  \<open>Code 8\<close> in its place.
\<close>

definition misnamed_state :: state where
  "misnamed_state = registered ''custom'' (Code 2) ''custom''"

definition misnamed_made :: state where
  "misnamed_made = snd (factory_call custom_env ''a'' (Ref 0) Null misnamed_state)"

definition numbered_state :: state where
  "numbered_state = registered ''custom'' (Code 7) ''custom''"

definition numbered_made :: state where
  "numbered_made = snd (factory_call custom_env ''42'' (Ref 0) Null numbered_state)"

definition large_state :: state where
  "large_state = registered ''custom'' (Code 9) ''custom''"

definition large_made :: state where
  "large_made = snd (factory_call custom_env ''a'' (Ref 0) Null large_state)"

definition throwing_state :: state where
  "throwing_state = registered ''custom'' (Code 10) ''custom''"

definition throwing_made :: state where
  "throwing_made = snd (factory_call custom_env ''a'' (Ref 0) Null throwing_state)"




definition intrusive_state :: state where
  "intrusive_state = registered ''custom'' (Code 8) ''custom''"

section \<open>Claims on the registry\<close>

text \<open>
  Claim C4, as the code has it: \<^verbatim>\<open>setType(n, f)\<close> returns without an error and
  \<^verbatim>\<open>getType(n)\<close> is then exactly \<open>f\<close>, for every name and factory, provided \<open>n\<close> already has
  an entry of its own or the prototype of the registry object is still the one it
  started with (it has not been replaced through the name \<^verbatim>\<open>__proto__\<close>).
\<close>

theorem setType_then_getType:
  assumes "sourceTypes_proto st = None \<or> sourceTypes st name \<noteq> None"
  shows "fst (setType E name f st) = Return Undefined \<and>
         getType E (snd (setType E name f st)) name
           = (Return (Fn f), snd (setType E name f st))"
proof (cases "sourceTypes st name")
  case (Some g)
  then show ?thesis by (simp add: setType_def write_own_def getType_def)
next
  case None
  with assms have default: "sourceTypes_proto st = None"
    by simp
  show ?thesis
  proof (cases "name = ''__proto__''")
    case True
    with None default show ?thesis
      by (simp add: setType_def getType_def object_prototype_def)
  next
    case False
    with None default show ?thesis
      by (auto simp: setType_def write_own_def getType_def object_prototype_def
          split: option.splits slot.splits)
  qed
qed

theorem setType_then_getType_witness:
  "(sourceTypes_proto initial = None \<or> sourceTypes initial ''custom'' \<noteq> None) \<and>
   fst (setType custom_env ''custom'' (Code 0) initial) = Return Undefined \<and>
   fst (getType custom_env (snd (setType custom_env ''custom'' (Code 0) initial)) ''custom'')
     = Return (Fn (Code 0)) \<and>
   (sourceTypes_proto (initial\<lparr>sourceTypes_proto := Some (Code 0)\<rparr>) = None \<or>
    sourceTypes (initial\<lparr>sourceTypes_proto := Some (Code 0)\<rparr>) ''vector'' \<noteq> None) \<and>
   fst (getType custom_env
     (snd (setType custom_env ''vector'' (Code 2) (initial\<lparr>sourceTypes_proto := Some (Code 0)\<rparr>)))
     ''vector'') = Return (Fn (Code 2))"
proof -
  have h1: "sourceTypes_proto initial = None \<or> sourceTypes initial ''custom'' \<noteq> None"
    by (simp add: initial_def)
  have h2: "sourceTypes_proto (initial\<lparr>sourceTypes_proto := Some (Code 0)\<rparr>) = None \<or>
            sourceTypes (initial\<lparr>sourceTypes_proto := Some (Code 0)\<rparr>) ''vector'' \<noteq> None"
    by (simp add: initial_def builtin_types_def)
  from setType_then_getType [OF h1, of custom_env "Code 0"]
    setType_then_getType [OF h2, of custom_env "Code 2"] h1 h2
  show ?thesis by simp
qed

text \<open>
  The claim as stated fails: after \<^verbatim>\<open>setType('__proto__', f0)\<close> the registry inherits
  from the function \<open>f0\<close>, whose own \<^verbatim>\<open>name\<close> is read-only; \<^verbatim>\<open>setType('name', f2)\<close> throws
  in strict mode and \<^verbatim>\<open>getType('name')\<close> is the name of \<open>f0\<close>.
\<close>

theorem setType_throws_on_inherited_readonly:
  "setType custom_env ''__proto__'' (Code 0) initial
     = (Return Undefined, initial\<lparr>sourceTypes_proto := Some (Code 0)\<rparr>) \<and>
   setType custom_env ''name'' (Code 2) (initial\<lparr>sourceTypes_proto := Some (Code 0)\<rparr>)
     = (Throw (ReadOnly ''name''), initial\<lparr>sourceTypes_proto := Some (Code 0)\<rparr>) \<and>
   getType custom_env (initial\<lparr>sourceTypes_proto := Some (Code 0)\<rparr>) ''name''
     = (Return (Str []), initial\<lparr>sourceTypes_proto := Some (Code 0)\<rparr>) \<and>
   fst (getType custom_env
     (snd (setType custom_env ''name'' (Code 2) (initial\<lparr>sourceTypes_proto := Some (Code 0)\<rparr>)))
     ''name'') \<noteq> Return (Fn (Code 2))"
  by (simp add: getType_def setType_def initial_def builtin_types_def object_prototype_def
      custom_env_def plain_get_def plain_set_def plain_value_def)

text \<open>
  Claim C5, as the code has it: at the start \<^verbatim>\<open>getType\<close> gives its factory for each of
  the five built-in names; for any other name it gives \<^verbatim>\<open>undefined\<close> unless the name is
  one that every plain object inherits from \<^verbatim>\<open>Object.prototype\<close>: for each of the ten
  inherited methods it gives that method, for \<^verbatim>\<open>constructor\<close> the function \<^verbatim>\<open>Object\<close>, and
  for \<^verbatim>\<open>__proto__\<close> the object \<^verbatim>\<open>Object.prototype\<close> itself.
\<close>

theorem getType_initial:
  "getType E initial ''vector''
     = (Return (Fn (Native ''../source/vector_tile_source.create'')), initial) \<and>
   getType E initial ''raster''
     = (Return (Fn (Native ''../source/raster_tile_source.create'')), initial) \<and>
   getType E initial ''geojson''
     = (Return (Fn (Native ''../source/geojson_source.create'')), initial) \<and>
   getType E initial ''video''
     = (Return (Fn (Native ''../source/video_source.create'')), initial) \<and>
   getType E initial ''image''
     = (Return (Fn (Native ''../source/image_source.create'')), initial) \<and>
   (name \<in> set [''hasOwnProperty'', ''isPrototypeOf'', ''propertyIsEnumerable'',
                 ''toLocaleString'', ''toString'', ''valueOf'', ''__defineGetter__'',
                 ''__defineSetter__'', ''__lookupGetter__'', ''__lookupSetter__'']
      \<longrightarrow> getType E initial name
            = (Return (Fn (Native (''Object.prototype.'' @ name))), initial)) \<and>
   getType E initial ''constructor'' = (Return (Fn (Native ''Object'')), initial) \<and>
   getType E initial ''__proto__'' = (Return ObjectPrototype, initial) \<and>
   (name \<notin> set [''vector'', ''raster'', ''geojson'', ''video'', ''image''] \<longrightarrow>
    name \<notin> set [''__proto__'', ''constructor'', ''hasOwnProperty'', ''isPrototypeOf'',
                 ''propertyIsEnumerable'', ''toLocaleString'', ''toString'', ''valueOf'',
                 ''__defineGetter__'', ''__defineSetter__'', ''__lookupGetter__'',
                 ''__lookupSetter__'']
      \<longrightarrow> getType E initial name = (Return Undefined, initial))"
  by (auto simp: getType_def initial_def builtin_types_def object_prototype_def
      object_prototype_methods_def slot_value_def)

theorem getType_initial_witness:
  "''valueOf'' \<in> set [''hasOwnProperty'', ''isPrototypeOf'', ''propertyIsEnumerable'',
                 ''toLocaleString'', ''toString'', ''valueOf'', ''__defineGetter__'',
                 ''__defineSetter__'', ''__lookupGetter__'', ''__lookupSetter__''] \<and>
   getType custom_env initial ''valueOf''
     = (Return (Fn (Native ''Object.prototype.valueOf'')), initial) \<and>
   ''nosuch'' \<notin> set [''vector'', ''raster'', ''geojson'', ''video'', ''image''] \<and>
   ''nosuch'' \<notin> set [''__proto__'', ''constructor'', ''hasOwnProperty'', ''isPrototypeOf'',
                 ''propertyIsEnumerable'', ''toLocaleString'', ''toString'', ''valueOf'',
                 ''__defineGetter__'', ''__defineSetter__'', ''__lookupGetter__'',
                 ''__lookupSetter__''] \<and>
   getType custom_env initial ''nosuch'' = (Return Undefined, initial)"
  using getType_initial [of custom_env "''valueOf''"] getType_initial [of custom_env "''nosuch''"]
  by simp

text \<open>
  The claim as stated fails: \<^verbatim>\<open>toString\<close> is none of the five names, and
  \<^verbatim>\<open>getType('toString')\<close> is the function \<^verbatim>\<open>Object.prototype.toString\<close>.
\<close>

theorem getType_initial_inherited:
  "''toString'' \<notin> set [''vector'', ''raster'', ''geojson'', ''video'', ''image''] \<and>
   getType custom_env initial ''toString''
     = (Return (Fn (Native ''Object.prototype.toString'')), initial) \<and>
   fst (getType custom_env initial ''toString'') \<noteq> Return Undefined"
  by (simp add: getType_def initial_def builtin_types_def object_prototype_def
      object_prototype_methods_def slot_value_def)

text \<open>
  Claim C10, as the code has it: for distinct names \<open>n\<close> and \<open>m\<close>, \<^verbatim>\<open>getType(m)\<close> returns the
  same before and after \<^verbatim>\<open>setType(n, f)\<close>, whether that call returns or throws, in two
  cases: the prototype of the registry object is the one it started with and \<open>n\<close> is
  not \<^verbatim>\<open>__proto__\<close>; or \<open>m\<close> has an entry of its own and either \<open>n\<close> has one too or the
  prototype is the one the registry started with.
\<close>

theorem setType_frame:
  assumes "m \<noteq> name"
    and "(sourceTypes_proto st = None \<and> name \<noteq> ''__proto__'') \<or>
         (sourceTypes st m \<noteq> None \<and>
          (sourceTypes_proto st = None \<or> sourceTypes st name \<noteq> None))"
  shows "fst (getType E (snd (setType E name f st)) m) = fst (getType E st m)"
proof (cases "sourceTypes st name")
  case (Some g)
  with assms show ?thesis
    by (auto simp: setType_def write_own_def getType_def split: option.splits)
next
  case None
  with assms(2) have default: "sourceTypes_proto st = None"
    by auto
  show ?thesis
  proof (cases "name = ''__proto__''")
    case True
    with assms(2) default obtain h where "sourceTypes st m = Some h"
      by auto
    with None default True show ?thesis
      by (simp add: setType_def getType_def object_prototype_def)
  next
    case False
    with None default assms(1) show ?thesis
      by (auto simp: setType_def write_own_def getType_def object_prototype_def
          split: option.splits slot.splits)
  qed
qed

theorem setType_frame_witness:
  "''vector'' \<noteq> ''custom'' \<and>
   ((sourceTypes_proto initial = None \<and> ''custom'' \<noteq> ''__proto__'') \<or>
    (sourceTypes initial ''vector'' \<noteq> None \<and>
     (sourceTypes_proto initial = None \<or> sourceTypes initial ''custom'' \<noteq> None))) \<and>
   fst (getType custom_env (snd (setType custom_env ''custom'' (Code 0) initial)) ''vector'')
     = Return (Fn (Native ''../source/vector_tile_source.create'')) \<and>
   ''vector'' \<noteq> ''__proto__'' \<and>
   ((sourceTypes_proto initial = None \<and> ''__proto__'' \<noteq> ''__proto__'') \<or>
    (sourceTypes initial ''vector'' \<noteq> None \<and>
     (sourceTypes_proto initial = None \<or> sourceTypes initial ''__proto__'' \<noteq> None))) \<and>
   fst (getType custom_env (snd (setType custom_env ''__proto__'' (Code 0) initial)) ''vector'')
     = Return (Fn (Native ''../source/vector_tile_source.create''))"
proof -
  have h1: "''vector'' \<noteq> ''custom''" by simp
  have h2: "(sourceTypes_proto initial = None \<and> ''custom'' \<noteq> ''__proto__'') \<or>
    (sourceTypes initial ''vector'' \<noteq> None \<and>
     (sourceTypes_proto initial = None \<or> sourceTypes initial ''custom'' \<noteq> None))"
    by (simp add: initial_def)
  have h3: "''vector'' \<noteq> ''__proto__''" by simp
  have h4: "(sourceTypes_proto initial = None \<and> ''__proto__'' \<noteq> ''__proto__'') \<or>
    (sourceTypes initial ''vector'' \<noteq> None \<and>
     (sourceTypes_proto initial = None \<or> sourceTypes initial ''__proto__'' \<noteq> None))"
    by (simp add: initial_def builtin_types_def)
  have v: "fst (getType custom_env initial ''vector'')
             = Return (Fn (Native ''../source/vector_tile_source.create''))"
    by (simp add: getType_def initial_def builtin_types_def)
  from setType_frame [OF h1 h2, of custom_env "Code 0"]
    setType_frame [OF h3 h4, of custom_env "Code 0"] v h1 h2 h3 h4
  show ?thesis by simp
qed

text \<open>
  The claim as stated fails: \<^verbatim>\<open>setType('__proto__', f)\<close> replaces the prototype link
  instead of adding an entry, and \<^verbatim>\<open>getType('call')\<close>, undefined before, is
  \<^verbatim>\<open>Function.prototype.call\<close> after.
\<close>

theorem setType_proto_changes_others:
  "''call'' \<noteq> ''__proto__'' \<and>
   getType custom_env initial ''call'' = (Return Undefined, initial) \<and>
   fst (getType custom_env (snd (setType custom_env ''__proto__'' (Code 0) initial)) ''call'')
     = Return (Fn (Native ''Function.prototype.call'')) \<and>
   fst (getType custom_env (snd (setType custom_env ''__proto__'' (Code 0) initial)) ''call'')
     \<noteq> fst (getType custom_env initial ''call'')"
  by (simp add: getType_def setType_def initial_def builtin_types_def object_prototype_def
      object_prototype_methods_def slot_value_def custom_env_def plain_get_def plain_value_def
      function_prototype_methods_def)

section \<open>Claims on create\<close>

text \<open>
  Claim C2, as the code has it: when the lookup \<^verbatim>\<open>sourceTypes[t]\<close> of the type named by
  the options gives \<^verbatim>\<open>undefined\<close>, \<^verbatim>\<open>create\<close> fails with the error of calling \<^verbatim>\<open>undefined\<close>
  (the unknown-source-type failure) in the state the lookup left: no function was run
  and no object was made. While the prototype of the registry is the one it started
  with, the lookup gives \<^verbatim>\<open>undefined\<close>, and leaves the state as it was, exactly for the
  names that have no entry and that \<^verbatim>\<open>Object.prototype\<close> does not hold.
\<close>

theorem create_unknown_type:
  assumes "get_prop E st source ''type'' = Inr ty"
    and "to_string E HintString ty st = (Inr t, sk)"
  shows "(getType E sk t = (Return Undefined, st') \<longrightarrow>
            create E ident source dispatcher st = (Throw (NotAFunction Undefined), st')) \<and>
         (sourceTypes_proto sk = None \<longrightarrow>
            (getType E sk t = (Return Undefined, sk) \<longleftrightarrow>
             sourceTypes sk t = None \<and>
             t \<notin> set [''__proto__'', ''constructor'', ''hasOwnProperty'',
               ''isPrototypeOf'', ''propertyIsEnumerable'', ''toLocaleString'', ''toString'',
               ''valueOf'', ''__defineGetter__'', ''__defineSetter__'', ''__lookupGetter__'',
               ''__lookupSetter__'']))"
proof -
  have "getType E sk t = (Return Undefined, st') \<longrightarrow>
          create E ident source dispatcher st = (Throw (NotAFunction Undefined), st')"
    using assms by (simp add: create_def factory_call_def invoke_def)
  moreover have "sourceTypes_proto sk = None \<longrightarrow>
            (getType E sk t = (Return Undefined, sk) \<longleftrightarrow>
             sourceTypes sk t = None \<and>
             t \<notin> set [''__proto__'', ''constructor'', ''hasOwnProperty'',
               ''isPrototypeOf'', ''propertyIsEnumerable'', ''toLocaleString'', ''toString'',
               ''valueOf'', ''__defineGetter__'', ''__defineSetter__'', ''__lookupGetter__'',
               ''__lookupSetter__''])"
    by (auto simp: getType_def object_prototype_def object_prototype_methods_def slot_value_def
        split: option.splits)
  ultimately show ?thesis by blast
qed

theorem create_unknown_type_witness:
  "get_prop custom_env (with_options ''nosuch'') (Ref 0) ''type'' = Inr (Str ''nosuch'') \<and>
   to_string custom_env HintString (Str ''nosuch'') (with_options ''nosuch'')
     = (Inr ''nosuch'', with_options ''nosuch'') \<and>
   sourceTypes_proto (with_options ''nosuch'') = None \<and>
   getType custom_env (with_options ''nosuch'') ''nosuch''
     = (Return Undefined, with_options ''nosuch'') \<and>
   create custom_env ''a'' (Ref 0) Null (with_options ''nosuch'')
     = (Throw (NotAFunction Undefined), with_options ''nosuch'') \<and>
   sourceTypes (with_options ''nosuch'') ''nosuch'' = None"
proof -
  have h1: "get_prop custom_env (with_options ''nosuch'') (Ref 0) ''type''
              = Inr (Str ''nosuch'')"
    by (simp add: get_prop_def with_options_def)
  have h2: "to_string custom_env HintString (Str ''nosuch'') (with_options ''nosuch'')
              = (Inr ''nosuch'', with_options ''nosuch'')"
    by (simp add: to_string_def)
  have h3: "getType custom_env (with_options ''nosuch'') ''nosuch''
              = (Return Undefined, with_options ''nosuch'')"
    by (simp add: getType_def with_options_def initial_def builtin_types_def
        object_prototype_def object_prototype_methods_def slot_value_def)
  have h4: "sourceTypes_proto (with_options ''nosuch'') = None"
    by (simp add: with_options_def initial_def)
  from create_unknown_type [OF h1 h2, where st' = "with_options ''nosuch''" and ident = "''a''"
      and dispatcher = Null] h1 h2 h3 h4
  show ?thesis by simp
qed

text \<open>
  The claim as stated fails: \<^verbatim>\<open>toString\<close> has never been registered, yet
  \<^verbatim>\<open>create('a', {type: 'toString'}, null)\<close> calls the inherited
  \<^verbatim>\<open>Object.prototype.toString\<close> as the factory and fails with the error of the id check.
\<close>

theorem create_inherited_type:
  "sourceTypes (with_options ''toString'') ''toString'' = None \<and>
   factory_call custom_env ''a'' (Ref 0) Null (with_options ''toString'')
     = (Return (Str ''[object Object]''), with_options ''toString'') \<and>
   create custom_env ''a'' (Ref 0) Null (with_options ''toString'')
     = (Throw (Error ''Expected Source id to be a instead of undefined''),
        with_options ''toString'') \<and>
   create custom_env ''a'' (Ref 0) Null (with_options ''toString'')
     \<noteq> (Throw (NotAFunction Undefined), with_options ''toString'')"
  by (simp add: create_def factory_call_def get_prop_def getType_def to_string_def invoke_def
      mismatch_message_def with_options_def initial_def builtin_types_def
      object_prototype_def object_prototype_methods_def slot_value_def
      custom_env_def custom_run_def)

section \<open>Lemmas on binding and on create\<close>

lemma get_prop_Ref:
  "get_prop E st (Ref a) n =
     (case heap st a n of
        Some x \<Rightarrow> Inr x
      | None \<Rightarrow> Inr (slot_value ObjectPrototype (object_prototype n)))"
  by (simp add: get_prop_def)

text \<open>Only a heap object can carry a string under \<^verbatim>\<open>id\<close> or under \<^verbatim>\<open>type\<close>.\<close>

lemma id_holder:
  assumes "get_prop E st v ''id'' = Inr (Str s)"
  shows "\<exists>a. v = Ref a \<and> heap st a ''id'' = Some (Str s)"
  using assms
  by (cases v)
     (auto simp: get_prop_def slot_value_def object_prototype_def object_prototype_methods_def
        split: option.splits)


lemma bind_one_registry:
  "sourceTypes (bind_one E n c st) = sourceTypes st \<and>
   sourceTypes_proto (bind_one E n c st) = sourceTypes_proto st"
  by (simp add: bind_one_def split: val.splits sum.splits)

lemma bindAll_registry:
  "sourceTypes (bindAll E ns c st) = sourceTypes st \<and>
   sourceTypes_proto (bindAll E ns c st) = sourceTypes_proto st"
  by (induction ns arbitrary: st) (simp_all add: bind_one_registry)

lemma bind_one_other: "b \<noteq> a \<Longrightarrow> heap (bind_one E n (Ref a) st) b = heap st b"
  by (simp add: bind_one_def split: sum.splits val.splits)

lemma bind_one_name: "m \<noteq> n \<Longrightarrow> heap (bind_one E n (Ref a) st) a m = heap st a m"
  by (simp add: bind_one_def split: sum.splits val.splits)

lemma bind_one_get:
  "get_prop E (bind_one E n (Ref a) st) (Ref a) n =
     (case get_prop E st (Ref a) n of Inr (Fn f) \<Rightarrow> Inr (Fn (Bound f (Ref a))) | r \<Rightarrow> r)"
  by (simp add: bind_one_def get_prop_Ref split: sum.splits val.splits option.splits)

lemma bindAll_other: "b \<noteq> a \<Longrightarrow> heap (bindAll E ns (Ref a) st) b = heap st b"
  by (induction ns arbitrary: st) (simp_all add: bind_one_other)

lemma bindAll_name: "m \<notin> set ns \<Longrightarrow> heap (bindAll E ns (Ref a) st) a m = heap st a m"
  by (induction ns arbitrary: st) (simp_all add: bind_one_name)

lemma bindAll_get_other:
  "m \<notin> set ns \<Longrightarrow> get_prop E (bindAll E ns (Ref a) st) (Ref a) m = get_prop E st (Ref a) m"
  by (simp add: get_prop_Ref bindAll_name)

lemma bindAll_get:
  "distinct ns \<Longrightarrow> n \<in> set ns \<Longrightarrow>
   get_prop E (bindAll E ns (Ref a) st) (Ref a) n =
     (case get_prop E st (Ref a) n of Inr (Fn f) \<Rightarrow> Inr (Fn (Bound f (Ref a))) | r \<Rightarrow> r)"
proof (induction ns arbitrary: st)
  case Nil
  then show ?case by simp
next
  case (Cons x xs)
  show ?case
  proof (cases "n = x")
    case True
    with Cons.prems have "n \<notin> set xs" by simp
    then show ?thesis using True by (simp add: bindAll_get_other bind_one_get)
  next
    case False
    with Cons.prems have "distinct xs" "n \<in> set xs" by simp_all
    then show ?thesis
      using False Cons.IH by (simp add: get_prop_Ref bind_one_name)
  qed
qed

lemma distinct_lifecycle: "distinct lifecycle"
  by (simp add: lifecycle_def)

lemma id_not_lifecycle: "''id'' \<notin> set lifecycle"
  by (simp add: lifecycle_def)

text \<open>What a returning \<^verbatim>\<open>create\<close> has gone through.\<close>

lemma create_Return:
  assumes "create E ident source dispatcher st = (Return v, st')"
  shows "\<exists>st1 a. factory_call E ident source dispatcher st = (Return v, st1) \<and> v = Ref a \<and>
           heap st1 a ''id'' = Some (Str ident) \<and> st' = bindAll E lifecycle v st1"
proof -
  obtain r st1 where fc: "factory_call E ident source dispatcher st = (r, st1)"
    by (cases "factory_call E ident source dispatcher st")
  with assms obtain sid where r: "r = Return v" and sid: "get_prop E st1 v ''id'' = Inr sid"
    by (auto simp: create_def split: outcome.splits sum.splits if_splits prod.splits)
  with assms fc have "sid = Str ident" and st': "st' = bindAll E lifecycle v st1"
    by (auto simp: create_def split: if_splits prod.splits sum.splits)
  with sid id_holder obtain a where "v = Ref a" "heap st1 a ''id'' = Some (Str ident)"
    by blast
  with fc r st' show ?thesis by blast
qed

lemma to_string_registry:
  assumes "\<forall>v s. sourceTypes (snd (show_obj E HintDefault v s)) = sourceTypes s \<and>
                sourceTypes_proto (snd (show_obj E HintDefault v s)) = sourceTypes_proto s"
  shows "sourceTypes (snd (to_string E HintDefault v s)) = sourceTypes s \<and>
         sourceTypes_proto (snd (to_string E HintDefault v s)) = sourceTypes_proto s"
  using assms by (cases v) (simp_all add: to_string_def)

lemma create_registry:
  assumes "\<forall>v s. sourceTypes (snd (show_obj E HintDefault v s)) = sourceTypes s \<and>
                sourceTypes_proto (snd (show_obj E HintDefault v s)) = sourceTypes_proto s"
  shows "sourceTypes (snd (create E ident source dispatcher st))
           = sourceTypes (snd (factory_call E ident source dispatcher st)) \<and>
         sourceTypes_proto (snd (create E ident source dispatcher st))
           = sourceTypes_proto (snd (factory_call E ident source dispatcher st))"
proof (cases "factory_call E ident source dispatcher st")
  case (Pair r st1)
  show ?thesis
  proof (cases r)
    case (Throw e)
    with Pair show ?thesis by (simp add: create_def)
  next
    case (Return v)
    show ?thesis
    proof (cases "get_prop E st1 v ''id''")
      case (Inl e)
      with Pair Return show ?thesis by (simp add: create_def)
    next
      case (Inr sid)
      show ?thesis
      proof (cases "sid = Str ident")
        case True
        with Pair Return Inr show ?thesis by (simp add: create_def bindAll_registry)
      next
        case False
        obtain c st2 where c: "to_string E HintDefault sid st1 = (c, st2)"
          by (cases "to_string E HintDefault sid st1")
        with to_string_registry [OF assms, of sid st1]
        have "sourceTypes st2 = sourceTypes st1 \<and> sourceTypes_proto st2 = sourceTypes_proto st1"
          by simp
        with Pair Return Inr False c show ?thesis
          by (cases c) (simp_all add: create_def)
      qed
    qed
  qed
qed




text \<open>
  Claim C1: when the options name a registered type and its factory returns an
  instance that carries the requested id, \<^verbatim>\<open>create\<close> returns that instance, and its \<^verbatim>\<open>id\<close>
  is still the requested id in the state \<^verbatim>\<open>create\<close> leaves.
\<close>

theorem create_id:
  assumes "get_prop E st source ''type'' = Inr (Str t)"
    and "getType E st t = (Return (Fn f), st0)"
    and "call E f SourceTypes [Str ident, source, dispatcher] st0 = (Return v, st1)"
    and "get_prop E st1 v ''id'' = Inr (Str ident)"
  shows "fst (create E ident source dispatcher st) = Return v \<and>
         get_prop E (snd (create E ident source dispatcher st)) v ''id'' = Inr (Str ident)"
proof -
  from assms(1-3) have fc: "factory_call E ident source dispatcher st = (Return v, st1)"
    by (simp add: factory_call_def to_string_def invoke_def)
  with assms(4) have cr: "create E ident source dispatcher st
                            = (Return v, bindAll E lifecycle v st1)"
    by (simp add: create_def)
  from assms(4) id_holder obtain a where a: "v = Ref a"
    by blast
  with assms(4) have "get_prop E (bindAll E lifecycle v st1) v ''id'' = Inr (Str ident)"
    by (simp add: bindAll_get_other id_not_lifecycle)
  with cr show ?thesis by simp
qed

text \<open>
  Claim C3, as the code has it: when the instance the factory returns carries an id
  other than the requested one, \<^verbatim>\<open>create\<close> fails; nothing is returned and no method of
  the instance is bound. For an id that is \<^verbatim>\<open>undefined\<close>, \<^verbatim>\<open>null\<close>, a boolean, a number or
  a string the error is the \<^verbatim>\<open>Error\<close> whose message holds the requested id and the
  returned id as JavaScript prints it, in the state the factory left. For an id that
  is an object the message is built by converting the object to a string: when that
  returns, the same \<^verbatim>\<open>Error\<close> is thrown; when it throws, its error is thrown instead.
\<close>

theorem create_id_mismatch:
  assumes "factory_call E ident source dispatcher st = (Return v, st1)"
    and "get_prop E st1 v ''id'' = Inr sid"
    and "sid \<noteq> Str ident"
  shows "create E ident source dispatcher st =
           (case sid of
              Undefined \<Rightarrow>
                (Throw (Error (''Expected Source id to be '' @ ident @ '' instead of ''
                                 @ ''undefined'')), st1)
            | Null \<Rightarrow>
                (Throw (Error (''Expected Source id to be '' @ ident @ '' instead of ''
                                 @ ''null'')), st1)
            | Bool b \<Rightarrow>
                (Throw (Error (''Expected Source id to be '' @ ident @ '' instead of ''
                                 @ (if b then ''true'' else ''false''))), st1)
            | Num i \<Rightarrow>
                (Throw (Error (''Expected Source id to be '' @ ident @ '' instead of ''
                                 @ (if \<bar>i\<bar> \<le> 9007199254740992 then show_int i
                                    else show_num E i))), st1)
            | Str s \<Rightarrow>
                (Throw (Error (''Expected Source id to be '' @ ident @ '' instead of '' @ s)),
                 st1)
            | _ \<Rightarrow>
                (case show_obj E HintDefault sid st1 of
                   (Inl e, st2) \<Rightarrow> (Throw e, st2)
                 | (Inr s, st2) \<Rightarrow>
                     (Throw (Error (''Expected Source id to be '' @ ident @ '' instead of ''
                                      @ s)), st2))) \<and>
         (\<forall>x. fst (create E ident source dispatcher st) \<noteq> Return x)"
  using assms
  by (cases sid)
     (auto simp: create_def mismatch_message_def to_string_def split: prod.splits sum.splits)

text \<open>
  Claim C7: after a successful \<^verbatim>\<open>create\<close>, each of the names \<^verbatim>\<open>load\<close>, \<^verbatim>\<open>abort\<close>,
  \<^verbatim>\<open>unload\<close>, \<^verbatim>\<open>serialize\<close> and \<^verbatim>\<open>prepare\<close> that held a method \<open>f\<close> on the instance the
  factory returned holds \<open>f\<close> bound to the instance, and calling that bound function
  with any receiver runs \<open>f\<close> with the instance as its receiver.
\<close>

theorem create_binds_lifecycle:
  assumes "create E ident source dispatcher st = (Return v, st')"
    and "n \<in> set lifecycle"
    and "get_prop E (snd (factory_call E ident source dispatcher st)) v n = Inr (Fn f)"
  shows "lifecycle = [''load'', ''abort'', ''unload'', ''serialize'', ''prepare''] \<and>
         get_prop E st' v n = Inr (Fn (Bound f v)) \<and>
         (\<forall>this args s. invoke E (Fn (Bound f v)) this args s = call E f v args s)"
proof -
  from create_Return [OF assms(1)] obtain st1 a
    where fc: "factory_call E ident source dispatcher st = (Return v, st1)"
      and a: "v = Ref a" and st': "st' = bindAll E lifecycle v st1"
    by blast
  from fc assms(3) have "get_prop E st1 (Ref a) n = Inr (Fn f)"
    by (simp add: a)
  with assms(2) have "get_prop E st' v n = Inr (Fn (Bound f v))"
    by (simp add: a st' bindAll_get distinct_lifecycle)
  then show ?thesis by (simp add: invoke_def lifecycle_def)
qed

text \<open>
  Claim C8: the value a successful \<^verbatim>\<open>create\<close> returns is the very reference the factory
  returned, and \<^verbatim>\<open>create\<close> changes nothing but the five lifecycle names of that object:
  its other properties, every other object and the registry are as the factory left
  them.
\<close>

theorem create_returns_factory_object:
  assumes "create E ident source dispatcher st = (Return v, st')"
  shows "fst (factory_call E ident source dispatcher st) = Return v \<and>
         (\<exists>a. v = Ref a \<and>
              (\<forall>n. n \<notin> set lifecycle \<longrightarrow>
                   heap st' a n = heap (snd (factory_call E ident source dispatcher st)) a n) \<and>
              (\<forall>b. b \<noteq> a \<longrightarrow>
                   heap st' b = heap (snd (factory_call E ident source dispatcher st)) b)) \<and>
         sourceTypes st' = sourceTypes (snd (factory_call E ident source dispatcher st)) \<and>
         sourceTypes_proto st'
           = sourceTypes_proto (snd (factory_call E ident source dispatcher st))"
proof -
  from create_Return [OF assms] obtain st1 a
    where fc: "factory_call E ident source dispatcher st = (Return v, st1)"
      and a: "v = Ref a" and st': "st' = bindAll E lifecycle v st1"
    by blast
  then show ?thesis
    by (simp add: bindAll_name bindAll_other bindAll_registry)
qed

text \<open>
  Claim C9, as the code has it: \<^verbatim>\<open>create\<close> itself never writes to the registry object.
  If line 31 leaves the registry object as it found it (the factory neither calls
  \<^verbatim>\<open>setType\<close> nor assigns to its receiver, which is the registry object), and
  converting an object to a string for the message of line 34 does not touch it
  either, then after \<^verbatim>\<open>create\<close>, whether it returned or threw, the entries and the
  prototype of the registry are what they were, and \<^verbatim>\<open>getType(n)\<close> returns the same for
  every name that has an entry and, while the prototype is the one the registry
  started with, for every name.
\<close>

theorem create_keeps_registry:
  assumes "sourceTypes (snd (factory_call E ident source dispatcher st)) = sourceTypes st"
    and "sourceTypes_proto (snd (factory_call E ident source dispatcher st))
           = sourceTypes_proto st"
    and "\<forall>v s. sourceTypes (snd (show_obj E HintDefault v s)) = sourceTypes s \<and>
               sourceTypes_proto (snd (show_obj E HintDefault v s)) = sourceTypes_proto s"
  shows "sourceTypes (snd (create E ident source dispatcher st)) = sourceTypes st \<and>
         sourceTypes_proto (snd (create E ident source dispatcher st)) = sourceTypes_proto st \<and>
         (sourceTypes_proto st = None \<or> sourceTypes st n \<noteq> None \<longrightarrow>
            fst (getType E (snd (create E ident source dispatcher st)) n)
              = fst (getType E st n))"
proof -
  have own: "sourceTypes (snd (create E ident source dispatcher st)) = sourceTypes st"
    using assms(1) create_registry [OF assms(3), of ident source dispatcher st] by simp
  have link: "sourceTypes_proto (snd (create E ident source dispatcher st))
                = sourceTypes_proto st"
    using assms(2) create_registry [OF assms(3), of ident source dispatcher st] by simp
  have "sourceTypes_proto st = None \<or> sourceTypes st n \<noteq> None \<longrightarrow>
          fst (getType E (snd (create E ident source dispatcher st)) n) = fst (getType E st n)"
    by (auto simp: getType_def own link split: option.splits)
  with own link show ?thesis by simp
qed


section \<open>The runs with a third-party type\<close>

lemmas eval_defs = get_prop_def getType_def to_string_def invoke_def factory_call_def create_def
  method_call_def bind_one_def lifecycle_def custom_env_def custom_run_def custom_code_def
  arg_def ref_addr_def slot_value_def object_prototype_def object_prototype_methods_def
  mismatch_message_def

lemma registered_custom:
  "sourceTypes (registered ''custom'' f t) ''custom'' = Some f \<and>
   sourceTypes_proto (registered ''custom'' f t) = None \<and>
   heap (registered ''custom'' f t) 0 ''type'' = Some (Str t)"
  by (simp add: registered_def setType_def write_own_def with_options_def initial_def
      builtin_types_def object_prototype_def object_prototype_methods_def)

lemma registered_eq:
  "registered ''custom'' f t =
     \<lparr>sourceTypes = (map_of builtin_types)(''custom'' \<mapsto> f), sourceTypes_proto = None,
      heap = (\<lambda>a. Map.empty)(0 := [''type'' \<mapsto> Str t])\<rparr>"
  by (simp add: registered_def setType_def write_own_def with_options_def initial_def
      builtin_types_def object_prototype_def object_prototype_methods_def)

lemma custom_state_type:
  "get_prop custom_env custom_state (Ref 0) ''type'' = Inr (Str ''custom'')"
  by (simp add: get_prop_def custom_state_def registered_custom)

lemma custom_state_getType:
  "getType custom_env custom_state ''custom'' = (Return (Fn (Code 0)), custom_state)"
  by (simp add: getType_def custom_state_def registered_custom)

lemma custom_factory_call_eq:
  "factory_call custom_env ''a'' (Ref 0) Null custom_state
     = call custom_env (Code 0) SourceTypes [Str ''a'', Ref 0, Null] custom_state"
  by (simp add: factory_call_def custom_state_type to_string_def custom_state_getType
      invoke_def del: call.simps)

lemma custom_call:
  "call custom_env (Code 0) SourceTypes [Str ''a'', Ref 0, Null] custom_state
     = (Return (Ref 2), custom_made)"
  by (simp add: custom_made_def custom_factory_call_eq)
     (simp add: custom_env_def custom_run_def custom_code_def arg_def ref_addr_def)

lemma custom_factory_call:
  "factory_call custom_env ''a'' (Ref 0) Null custom_state = (Return (Ref 2), custom_made)"
  by (simp only: custom_factory_call_eq custom_call)

lemma custom_made_heap:
  "heap custom_made 2 = [''id'' \<mapsto> Str ''a'', ''options'' \<mapsto> Ref 0, ''load'' \<mapsto> Fn (Code 5),
                          ''serialize'' \<mapsto> Fn (Code 6)]"
  by (simp add: custom_made_def custom_factory_call_eq)
     (simp add: custom_env_def custom_run_def custom_code_def arg_def ref_addr_def)

lemma custom_made_id: "get_prop custom_env custom_made (Ref 2) ''id'' = Inr (Str ''a'')"
  by (simp add: get_prop_def custom_made_heap)

lemma custom_made_load: "get_prop custom_env custom_made (Ref 2) ''load'' = Inr (Fn (Code 5))"
  by (simp add: get_prop_def custom_made_heap)

lemma custom_create:
  "create custom_env ''a'' (Ref 0) Null custom_state = (Return (Ref 2), custom_created)"
  by (simp add: custom_created_def)
     (simp add: create_def custom_factory_call custom_made_id)







lemma misnamed_factory_call:
  "factory_call custom_env ''a'' (Ref 0) Null misnamed_state = (Return (Ref 4), misnamed_made)"
  by (simp add: misnamed_made_def)
     (simp add: eval_defs misnamed_state_def registered_custom)

lemma misnamed_made_id: "get_prop custom_env misnamed_made (Ref 4) ''id'' = Inr (Str ''other'')"
  by (simp add: misnamed_made_def)
     (simp add: eval_defs misnamed_state_def registered_custom)

lemma numbered_factory_call:
  "factory_call custom_env ''42'' (Ref 0) Null numbered_state = (Return (Ref 4), numbered_made)"
  by (simp add: numbered_made_def)
     (simp add: eval_defs numbered_state_def registered_custom)

lemma numbered_made_id: "get_prop custom_env numbered_made (Ref 4) ''id'' = Inr (Num 42)"
  by (simp add: numbered_made_def)
     (simp add: eval_defs numbered_state_def registered_custom)

lemma large_factory_call:
  "factory_call custom_env ''a'' (Ref 0) Null large_state = (Return (Ref 4), large_made)"
  by (simp add: large_made_def)
     (simp add: eval_defs large_state_def registered_custom)

lemma large_made_id:
  "get_prop custom_env large_made (Ref 4) ''id'' = Inr (Num 1000000000000000000000)"
  by (simp add: large_made_def)
     (simp add: eval_defs large_state_def registered_custom)

lemma show_int_42: "show_int 42 = ''42''"
  by (simp add: show_int_def digit_def)

section \<open>The claims on create at the third-party type\<close>

theorem create_id_witness:
  "get_prop custom_env custom_state (Ref 0) ''type'' = Inr (Str ''custom'') \<and>
   getType custom_env custom_state ''custom'' = (Return (Fn (Code 0)), custom_state) \<and>
   call custom_env (Code 0) SourceTypes [Str ''a'', Ref 0, Null] custom_state
     = (Return (Ref 2), custom_made) \<and>
   get_prop custom_env custom_made (Ref 2) ''id'' = Inr (Str ''a'') \<and>
   fst (create custom_env ''a'' (Ref 0) Null custom_state) = Return (Ref 2) \<and>
   get_prop custom_env (snd (create custom_env ''a'' (Ref 0) Null custom_state)) (Ref 2) ''id''
     = Inr (Str ''a'')"
  using create_id [OF custom_state_type custom_state_getType custom_call custom_made_id]
    custom_state_type custom_state_getType custom_call custom_made_id
  by simp

theorem create_id_mismatch_witness:
  "factory_call custom_env ''a'' (Ref 0) Null misnamed_state = (Return (Ref 4), misnamed_made) \<and>
   get_prop custom_env misnamed_made (Ref 4) ''id'' = Inr (Str ''other'') \<and>
   Str ''other'' \<noteq> Str ''a'' \<and>
   create custom_env ''a'' (Ref 0) Null misnamed_state
     = (Throw (Error ''Expected Source id to be a instead of other''), misnamed_made) \<and>
   factory_call custom_env ''42'' (Ref 0) Null numbered_state
     = (Return (Ref 4), numbered_made) \<and>
   get_prop custom_env numbered_made (Ref 4) ''id'' = Inr (Num 42) \<and>
   Num 42 \<noteq> Str ''42'' \<and>
   create custom_env ''42'' (Ref 0) Null numbered_state
     = (Throw (Error ''Expected Source id to be 42 instead of 42''), numbered_made) \<and>
   factory_call custom_env ''a'' (Ref 0) Null large_state = (Return (Ref 4), large_made) \<and>
   get_prop custom_env large_made (Ref 4) ''id'' = Inr (Num 1000000000000000000000) \<and>
   Num 1000000000000000000000 \<noteq> Str ''a'' \<and>
   create custom_env ''a'' (Ref 0) Null large_state
     = (Throw (Error ''Expected Source id to be a instead of 1e+21''), large_made)"
proof -
  have h1: "Str ''other'' \<noteq> Str ''a''"
    by simp
  have h2: "Num 42 \<noteq> Str ''42''"
    by simp
  have h3: "Num 1000000000000000000000 \<noteq> Str ''a''"
    by simp
  from create_id_mismatch [OF misnamed_factory_call misnamed_made_id h1]
    create_id_mismatch [OF numbered_factory_call numbered_made_id h2]
    create_id_mismatch [OF large_factory_call large_made_id h3]
    misnamed_factory_call misnamed_made_id numbered_factory_call numbered_made_id
    large_factory_call large_made_id
  show ?thesis by (simp add: show_int_42 custom_env_def)
qed

text \<open>
  Claim C3 as stated fails: the factory \<open>Code 10\<close> returns an instance whose id is an
  object with a throwing \<^verbatim>\<open>toString\<close>; building the message of line 34 throws \<^verbatim>\<open>'boom'\<close>,
  and that, not the \<^verbatim>\<open>Error\<close> that names the two ids, is what \<^verbatim>\<open>create\<close> throws.
\<close>

theorem create_id_conversion_throws:
  "factory_call custom_env ''a'' (Ref 0) Null throwing_state = (Return (Ref 4), throwing_made) \<and>
   get_prop custom_env throwing_made (Ref 4) ''id'' = Inr (Ref 7) \<and>
   Ref 7 \<noteq> Str ''a'' \<and>
   create custom_env ''a'' (Ref 0) Null throwing_state
     = (Throw (Thrown (Str ''boom'')), throwing_made)"
proof -
  have fc: "factory_call custom_env ''a'' (Ref 0) Null throwing_state
              = (Return (Ref 4), throwing_made)"
    by (simp add: throwing_made_def)
       (simp add: eval_defs throwing_state_def registered_custom)
  have i: "get_prop custom_env throwing_made (Ref 4) ''id'' = Inr (Ref 7)"
    by (simp add: throwing_made_def)
       (simp add: eval_defs throwing_state_def registered_custom)
  have "create custom_env ''a'' (Ref 0) Null throwing_state
          = (Throw (Thrown (Str ''boom'')), throwing_made)"
    by (simp add: create_def fc i to_string_def) (simp add: custom_env_def)
  with fc i show ?thesis by simp
qed

theorem create_binds_lifecycle_witness:
  "create custom_env ''a'' (Ref 0) Null custom_state = (Return (Ref 2), custom_created) \<and>
   ''load'' \<in> set lifecycle \<and>
   get_prop custom_env (snd (factory_call custom_env ''a'' (Ref 0) Null custom_state))
     (Ref 2) ''load'' = Inr (Fn (Code 5)) \<and>
   get_prop custom_env custom_created (Ref 2) ''load'' = Inr (Fn (Bound (Code 5) (Ref 2))) \<and>
   invoke custom_env (Fn (Bound (Code 5) (Ref 2))) Undefined [] custom_created
     = (Return (Ref 2), custom_created)"
proof -
  have h2: "''load'' \<in> set lifecycle"
    by (simp add: lifecycle_def)
  have h3: "get_prop custom_env (snd (factory_call custom_env ''a'' (Ref 0) Null custom_state))
              (Ref 2) ''load'' = Inr (Fn (Code 5))"
    by (simp add: custom_factory_call custom_made_load)
  have r: "call custom_env (Code 5) (Ref 2) [] custom_created = (Return (Ref 2), custom_created)"
    by (simp add: custom_env_def custom_run_def custom_code_def)
  from create_binds_lifecycle [OF custom_create h2 h3] r custom_create h2 h3
  show ?thesis by simp
qed

theorem create_returns_factory_object_witness:
  "create custom_env ''a'' (Ref 0) Null custom_state = (Return (Ref 2), custom_created) \<and>
   fst (factory_call custom_env ''a'' (Ref 0) Null custom_state) = Return (Ref 2) \<and>
   heap custom_created 2 ''id'' = Some (Str ''a'') \<and>
   heap custom_created 0 = heap custom_made 0"
proof -
  have n: "''id'' \<notin> set lifecycle"
    by (simp add: lifecycle_def)
  have i: "heap custom_made 2 ''id'' = Some (Str ''a'')"
    by (simp add: custom_made_heap)
  from create_returns_factory_object [OF custom_create] n i custom_factory_call
  show ?thesis by (auto simp: custom_create)
qed

theorem create_keeps_registry_witness:
  "sourceTypes (snd (factory_call custom_env ''a'' (Ref 0) Null custom_state))
     = sourceTypes custom_state \<and>
   sourceTypes_proto (snd (factory_call custom_env ''a'' (Ref 0) Null custom_state))
     = sourceTypes_proto custom_state \<and>
   (\<forall>v s. sourceTypes (snd (show_obj custom_env HintDefault v s)) = sourceTypes s \<and>
          sourceTypes_proto (snd (show_obj custom_env HintDefault v s)) = sourceTypes_proto s) \<and>
   (sourceTypes_proto custom_state = None \<or> sourceTypes custom_state ''custom'' \<noteq> None) \<and>
   fst (getType custom_env (snd (create custom_env ''a'' (Ref 0) Null custom_state)) ''custom'')
     = Return (Fn (Code 0))"
proof -
  have h1: "sourceTypes (snd (factory_call custom_env ''a'' (Ref 0) Null custom_state))
              = sourceTypes custom_state"
    by (simp add: custom_factory_call_eq) (simp add: custom_env_def custom_run_def custom_code_def)
  have h2: "sourceTypes_proto (snd (factory_call custom_env ''a'' (Ref 0) Null custom_state))
              = sourceTypes_proto custom_state"
    by (simp add: custom_factory_call_eq) (simp add: custom_env_def custom_run_def custom_code_def)
  have h3: "sourceTypes_proto custom_state = None \<or> sourceTypes custom_state ''custom'' \<noteq> None"
    by (simp add: custom_state_def registered_custom)
  have h4: "\<forall>v s. sourceTypes (snd (show_obj custom_env HintDefault v s)) = sourceTypes s \<and>
              sourceTypes_proto (snd (show_obj custom_env HintDefault v s)) = sourceTypes_proto s"
    by (simp add: custom_env_def)
  from create_keeps_registry [OF h1 h2 h4, of "''custom''"] h1 h2 h3 h4 custom_state_getType
  show ?thesis by auto
qed

text \<open>
  Claim C9 as stated fails: the factory \<open>Code 8\<close> never calls \<^verbatim>\<open>setType\<close>, but it assigns
  to \<^verbatim>\<open>this.load\<close>, and its receiver is the registry object: \<^verbatim>\<open>getType('load')\<close> is
  undefined before \<^verbatim>\<open>create\<close> and a function after it.
\<close>

theorem create_factory_writes_receiver:
  "fst (getType custom_env intrusive_state ''load'') = Return Undefined \<and>
   fst (create custom_env ''a'' (Ref 0) Null intrusive_state) = Return (Ref 4) \<and>
   fst (getType custom_env (snd (create custom_env ''a'' (Ref 0) Null intrusive_state)) ''load'')
     = Return (Fn (Code 5)) \<and>
   fst (getType custom_env (snd (create custom_env ''a'' (Ref 0) Null intrusive_state)) ''load'')
     \<noteq> fst (getType custom_env intrusive_state ''load'')"
  unfolding intrusive_state_def registered_eq
  by (simp add: eval_defs builtin_types_def)



end
